theory Spec2Isabelle
  imports
    Main
    "HOL-Library.Char_ord"
    "HOL-Library.List_Lexorder"
    "HOL-Library.Option_ord"
    "HOL-Library.Product_Lexorder"
begin

section \<open>Values\<close>

text \<open>
  Python's \<open>str\<close> is modelled by \<open>string\<close>, one \<open>char\<close> per character; the model is
  exact on ASCII text (\<open>length\<close> is \<open>len\<close>, the order of \<open>Char_ord\<close> and
  \<open>List_Lexorder\<close> is the order of Python's \<open>sorted\<close> and of SQLite's BINARY
  collation). A \<open>datetime.date\<close> is the triple (year, month, day), ordered
  lexicographically as Python orders dates and as SQLite orders their ISO text. A
  timestamp is the reading of the database clock, a natural number.
\<close>

type_synonym date = "nat \<times> nat \<times> nat"

type_synonym timestamp = nat

text \<open>
  A key of a JSON request body: absent, \<open>null\<close>, or a value of the field's type.
  Pydantic keeps the difference between absent and \<open>null\<close> (\<open>model_fields_set\<close>).
\<close>

datatype 'a field = Unset | Null | Val 'a

fun field_value :: "'a field \<Rightarrow> 'a option" where
  "field_value Unset = None"
| "field_value Null = None"
| "field_value (Val x) = Some x"

section \<open>backend/models.py\<close>

record ProjectBase =
  project_name :: string
  description :: string
  industry :: "string option"
  start_date :: "date option"
  end_date :: "date option"
  tools_used :: "string option"
  role :: "string option"
  client_organization :: "string option"
  client_description :: "string option"

text \<open>
  \<open>ProjectResponse\<close> extends \<open>ProjectBase\<close> (and inherits its validator). The field
  \<open>id\<close> of the source is \<open>id_col\<close> here. A row of the table \<open>work_projects\<close>, as
  \<open>dict(row)\<close> returns it, has the same keys, so the stored rows have this type too.
\<close>

record ProjectResponse = ProjectBase +
  id_col :: int
  created_at :: timestamp
  updated_at :: timestamp

text \<open>
  The JSON body of POST and PUT, before validation. \<open>ProjectUpdate\<close> has the same
  fields, all optional, so a validated \<open>ProjectUpdate\<close> object is such a body too.
\<close>

record ProjectPayload =
  project_name_in :: "string field"
  description_in :: "string field"
  industry_in :: "string field"
  start_date_in :: "date field"
  end_date_in :: "date field"
  tools_used_in :: "string field"
  role_in :: "string field"
  client_organization_in :: "string field"
  client_description_in :: "string field"

text \<open>\<open>str = Field(..., min_length=lo, max_length=hi)\<close>: required, not \<open>null\<close>.\<close>

fun required_str :: "nat \<Rightarrow> nat \<Rightarrow> string field \<Rightarrow> bool" where
  "required_str lo hi Unset = False"
| "required_str lo hi Null = False"
| "required_str lo hi (Val s) = (lo \<le> length s \<and> length s \<le> hi)"

text \<open>\<open>Optional[str] = Field(None, min_length=lo, max_length=hi)\<close>.\<close>

fun optional_str :: "nat \<Rightarrow> nat \<Rightarrow> string field \<Rightarrow> bool" where
  "optional_str lo hi Unset = True"
| "optional_str lo hi Null = True"
| "optional_str lo hi (Val s) = (lo \<le> length s \<and> length s \<le> hi)"

text \<open>
  The validator of \<open>end_date\<close>, the same in \<open>ProjectBase\<close> and \<open>ProjectUpdate\<close>:
  \<open>v\<close> is the value of \<open>end_date\<close>, the second argument is
  \<open>info.data.get('start_date')\<close>. \<open>Inl\<close> is the \<open>ValueError\<close>.
\<close>

definition validate_end_date :: "date option \<Rightarrow> date option \<Rightarrow> string + date option" where
  "validate_end_date v start =
     (case v of
        None \<Rightarrow> Inr v
      | Some e \<Rightarrow>
          (case start of
             None \<Rightarrow> Inr v
           | Some s \<Rightarrow> if e < s then Inl ''end_date cannot be before start_date'' else Inr v))"

fun is_ok :: "'e + 'a \<Rightarrow> bool" where
  "is_ok (Inr _) = True"
| "is_ok (Inl _) = False"

text \<open>
  Pydantic runs a field validator only on a field the input supplies; a field left out
  takes its default unchecked.
\<close>

definition end_date_ok :: "ProjectPayload \<Rightarrow> bool" where
  "end_date_ok p =
     (end_date_in p = Unset \<or>
      is_ok (validate_end_date (field_value (end_date_in p)) (field_value (start_date_in p))))"

text \<open>The fields that fail validation, in the order of the class.\<close>

definition ProjectCreate_errors :: "ProjectPayload \<Rightarrow> string list" where
  "ProjectCreate_errors p =
     (if required_str 1 200 (project_name_in p) then [] else [''project_name'']) @
     (if required_str 1 2000 (description_in p) then [] else [''description'']) @
     (if optional_str 0 100 (industry_in p) then [] else [''industry'']) @
     (if end_date_ok p then [] else [''end_date'']) @
     (if optional_str 0 500 (tools_used_in p) then [] else [''tools_used'']) @
     (if optional_str 0 100 (role_in p) then [] else [''role'']) @
     (if optional_str 0 200 (client_organization_in p) then [] else [''client_organization'']) @
     (if optional_str 0 1000 (client_description_in p) then [] else [''client_description''])"

fun str_of :: "string field \<Rightarrow> string" where
  "str_of (Val s) = s"
| "str_of _ = []"

definition ProjectCreate :: "ProjectPayload \<Rightarrow> string list + ProjectBase" where
  "ProjectCreate p =
     (if ProjectCreate_errors p = [] then
        Inr \<lparr>project_name = str_of (project_name_in p),
             description = str_of (description_in p),
             industry = field_value (industry_in p),
             start_date = field_value (start_date_in p),
             end_date = field_value (end_date_in p),
             tools_used = field_value (tools_used_in p),
             role = field_value (role_in p),
             client_organization = field_value (client_organization_in p),
             client_description = field_value (client_description_in p)\<rparr>
      else Inl (ProjectCreate_errors p))"

definition ProjectUpdate_errors :: "ProjectPayload \<Rightarrow> string list" where
  "ProjectUpdate_errors p =
     (if optional_str 1 200 (project_name_in p) then [] else [''project_name'']) @
     (if optional_str 1 2000 (description_in p) then [] else [''description'']) @
     (if optional_str 0 100 (industry_in p) then [] else [''industry'']) @
     (if end_date_ok p then [] else [''end_date'']) @
     (if optional_str 0 500 (tools_used_in p) then [] else [''tools_used'']) @
     (if optional_str 0 100 (role_in p) then [] else [''role'']) @
     (if optional_str 0 200 (client_organization_in p) then [] else [''client_organization'']) @
     (if optional_str 0 1000 (client_description_in p) then [] else [''client_description''])"

definition ProjectUpdate :: "ProjectPayload \<Rightarrow> string list + ProjectPayload" where
  "ProjectUpdate p = (if ProjectUpdate_errors p = [] then Inr p else Inl (ProjectUpdate_errors p))"

text \<open>The exceptions that the handlers' catch-all \<open>except Exception\<close> meets.\<close>

datatype exn = ValidationError | IntegrityError | OperationalError | TypeError

text \<open>
  \<open>ProjectResponse(**row)\<close>: every key is supplied, so every field is checked, the
  inherited date validator included.
\<close>

definition response_ok :: "ProjectResponse \<Rightarrow> bool" where
  "response_ok r =
     (required_str 1 200 (Val (project_name r)) \<and>
      required_str 1 2000 (Val (description r)) \<and>
      (case industry r of None \<Rightarrow> True | Some s \<Rightarrow> length s \<le> 100) \<and>
      is_ok (validate_end_date (end_date r) (start_date r)) \<and>
      (case tools_used r of None \<Rightarrow> True | Some s \<Rightarrow> length s \<le> 500) \<and>
      (case role r of None \<Rightarrow> True | Some s \<Rightarrow> length s \<le> 100) \<and>
      (case client_organization r of None \<Rightarrow> True | Some s \<Rightarrow> length s \<le> 200) \<and>
      (case client_description r of None \<Rightarrow> True | Some s \<Rightarrow> length s \<le> 1000))"

definition ProjectResponse_of :: "ProjectResponse \<Rightarrow> exn + ProjectResponse" where
  "ProjectResponse_of r = (if response_ok r then Inr r else Inl ValidationError)"

section \<open>Strings: Python's methods and SQLite's LIKE\<close>

definition ascii_lower :: "char \<Rightarrow> char" where
  "ascii_lower c =
     (case map_of (zip ''ABCDEFGHIJKLMNOPQRSTUVWXYZ'' ''abcdefghijklmnopqrstuvwxyz'') c of
        None \<Rightarrow> c
      | Some l \<Rightarrow> l)"

definition ascii_upper :: "char \<Rightarrow> char" where
  "ascii_upper c =
     (case map_of (zip ''abcdefghijklmnopqrstuvwxyz'' ''ABCDEFGHIJKLMNOPQRSTUVWXYZ'') c of
        None \<Rightarrow> c
      | Some u \<Rightarrow> u)"

text \<open>\<open>str.lower()\<close> and \<open>str.upper()\<close>, on ASCII text.\<close>

definition lower :: "string \<Rightarrow> string" where
  "lower s = map ascii_lower s"

definition upper :: "string \<Rightarrow> string" where
  "upper s = map ascii_upper s"

text \<open>\<open>sep.join(xs)\<close>.\<close>

fun join :: "string \<Rightarrow> string list \<Rightarrow> string" where
  "join sep [] = []"
| "join sep [x] = x"
| "join sep (x # y # ys) = x @ sep @ join sep (y # ys)"

text \<open>\<open>s.split(sep)\<close> for a separator of one character: never empty, \<open>''.split(',') == ['']\<close>.\<close>

fun split :: "char \<Rightarrow> string \<Rightarrow> string list" where
  "split sep [] = [[]]"
| "split sep (c # cs) =
     (if c = sep then [] # split sep cs
      else (case split sep cs of [] \<Rightarrow> [[c]] | w # ws \<Rightarrow> (c # w) # ws))"

text \<open>\<open>str.isspace\<close> on ASCII: tab, LF, VT, FF, CR, the separators 0x1C to 0x1F, space.\<close>

definition is_space :: "char \<Rightarrow> bool" where
  "is_space c =
     (c \<in> set [CHR 0x09, CHR 0x0A, CHR 0x0B, CHR 0x0C, CHR 0x0D,
                CHR 0x1C, CHR 0x1D, CHR 0x1E, CHR 0x1F, CHR '' ''])"

definition strip :: "string \<Rightarrow> string" where
  "strip s = rev (dropWhile is_space (rev (dropWhile is_space s)))"

text \<open>
  SQLite's \<open>text LIKE pattern\<close> with its defaults, which the code leaves as they are (no
  \<open>PRAGMA case_sensitive_like\<close>, no ESCAPE): \<open>%\<close> matches any run of characters,
  \<open>_\<close> matches one character, and any other character matches itself up to the case
  of ASCII letters. First argument: the pattern.
\<close>

fun like :: "string \<Rightarrow> string \<Rightarrow> bool" where
  "like [] s = (s = [])"
| "like (p # ps) [] = (p = CHR ''%'' \<and> like ps [])"
| "like (p # ps) (c # cs) =
     (if p = CHR ''%'' then like ps (c # cs) \<or> like (p # ps) cs
      else (p = CHR ''_'' \<or> ascii_lower p = ascii_lower c) \<and> like ps cs)"

section \<open>database/db_utils.py over the table work_projects\<close>

text \<open>
  The state: the rows of \<open>work_projects\<close> in the order of insertion, and the text of
  every SQL statement handed to \<open>execute_query\<close>, \<open>fetch_one\<close> or \<open>fetch_all\<close> so
  far. Every call opens a connection, runs one statement, commits and closes. The
  database of the model fails only where a statement is refused: an unreadable file or
  a lost connection, which the handlers would also report as HTTP 500, is outside it.
\<close>

record db =
  table :: "ProjectResponse list"
  sql_log :: "string list"

definition executed :: "string \<Rightarrow> db \<Rightarrow> db" where
  "executed query d = d\<lparr>sql_log := sql_log d @ [query]\<rparr>"

text \<open>\<open>fetch_one("SELECT * FROM work_projects WHERE id = ?", (i,))\<close>.\<close>

definition select_by_id :: "int \<Rightarrow> db \<Rightarrow> ProjectResponse option \<times> db" where
  "select_by_id i d =
     (find (\<lambda>r. id_col r = i) (table d), executed ''SELECT * FROM work_projects WHERE id = ?'' d)"

text \<open>
  The table definition \<open>schema.sql\<close> is not among the sources. What the handlers need
  of it is taken from the spec, in the next four definitions.
\<close>

text \<open>
  Modelled from the spec: \<open>id\<close> is "integer, surrogate primary key, auto-assigned"; the
  column definition is in the missing \<open>schema.sql\<close>. Here: one more than the largest
  id in the table (SQLite's rule for a rowid), 1 for the empty table.
\<close>

definition new_id :: "ProjectResponse list \<Rightarrow> int" where
  "new_id rows = fold max (map id_col rows) 0 + 1"

text \<open>
  Modelled from the spec: "\<open>created_at\<close> set once at insert" and
  "\<open>created_at == updated_at\<close> at creation time"; the column defaults are in the
  missing \<open>schema.sql\<close>. The row that an INSERT of the nine columns stores at clock
  reading \<open>now\<close>.
\<close>

definition new_row :: "timestamp \<Rightarrow> int \<Rightarrow> ProjectBase \<Rightarrow> ProjectResponse" where
  "new_row now i p =
     \<lparr>project_name = project_name p,
      description = description p,
      industry = industry p,
      start_date = start_date p,
      end_date = end_date p,
      tools_used = tools_used p,
      role = role p,
      client_organization = client_organization p,
      client_description = client_description p,
      id_col = i, created_at = now, updated_at = now\<rparr>"

text \<open>
  Modelled from the spec: "a trigger (or equivalent) that stamps \<open>updated_at\<close> on every
  row modification"; the trigger is in the missing \<open>schema.sql\<close>. A row that an UPDATE
  changes takes the reading of the clock.
\<close>

definition stamp_updated_at :: "timestamp \<Rightarrow> ProjectResponse \<Rightarrow> ProjectResponse" where
  "stamp_updated_at now r = r\<lparr>updated_at := now\<rparr>"

text \<open>
  Modelled from the spec: \<open>project_name\<close> and \<open>description\<close> are "required"; the
  column constraints are in the missing \<open>schema.sql\<close>. Here: NOT NULL, so a row holds a
  string for them and an UPDATE that binds NULL to one of them is refused.
\<close>

definition not_null_violated :: "ProjectPayload \<Rightarrow> bool" where
  "not_null_violated p = (project_name_in p = Null \<or> description_in p = Null)"

text \<open>
  \<open>execute_query\<close> of the INSERT statement of \<open>create_project\<close> at clock reading
  \<open>now\<close>; it returns \<open>cursor.lastrowid\<close>. The statement's text is the source's with
  its white space reduced to single blanks.
\<close>

definition insert_project :: "timestamp \<Rightarrow> ProjectBase \<Rightarrow> db \<Rightarrow> int \<times> db" where
  "insert_project now p d =
     (let i = new_id (table d)
      in (i, executed ''INSERT INTO work_projects (project_name, description, industry, start_date, end_date, tools_used, role, client_organization, client_description) VALUES (?, ?, ?, ?, ?, ?, ?, ?, ?)''
               (d\<lparr>table := table d @ [new_row now i p]\<rparr>)))"

text \<open>\<open>SET column = ?\<close> for a supplied key; \<open>None\<close> is bound as NULL.\<close>

fun set_opt :: "'a field \<Rightarrow> 'a option \<Rightarrow> 'a option" where
  "set_opt Unset old = old"
| "set_opt Null old = None"
| "set_opt (Val x) old = Some x"

text \<open>The same for a NOT NULL column; NULL is refused before it gets here.\<close>

fun set_str :: "string field \<Rightarrow> string \<Rightarrow> string" where
  "set_str (Val s) old = s"
| "set_str _ old = old"

definition set_columns :: "ProjectPayload \<Rightarrow> ProjectResponse \<Rightarrow> ProjectResponse" where
  "set_columns p r =
     r\<lparr>project_name := set_str (project_name_in p) (project_name r),
       description := set_str (description_in p) (description r),
       industry := set_opt (industry_in p) (industry r),
       start_date := set_opt (start_date_in p) (start_date r),
       end_date := set_opt (end_date_in p) (end_date r),
       tools_used := set_opt (tools_used_in p) (tools_used r),
       role := set_opt (role_in p) (role r),
       client_organization := set_opt (client_organization_in p) (client_organization r),
       client_description := set_opt (client_description_in p) (client_description r)\<rparr>"

text \<open>
  \<open>execute_query\<close> of \<open>UPDATE work_projects SET ... WHERE id = ?\<close> at clock reading
  \<open>now\<close>. The statement fails (sqlite3.IntegrityError, nothing written) when it would
  store NULL in a NOT NULL column of a row; otherwise every row with the id takes the
  supplied columns and the trigger stamps it.
\<close>

definition update_by_id :: "timestamp \<Rightarrow> string \<Rightarrow> ProjectPayload \<Rightarrow> int \<Rightarrow> db \<Rightarrow> (exn + unit) \<times> db" where
  "update_by_id now query p i d =
     (if not_null_violated p \<and> find (\<lambda>r. id_col r = i) (table d) \<noteq> None
      then (Inl IntegrityError, executed query d)
      else (Inr (),
            executed query
              (d\<lparr>table := map (\<lambda>r. if id_col r = i then stamp_updated_at now (set_columns p r) else r)
                               (table d)\<rparr>)))"

text \<open>\<open>execute_query("DELETE FROM work_projects WHERE id = ?", (i,))\<close>.\<close>

definition delete_by_id :: "int \<Rightarrow> db \<Rightarrow> db" where
  "delete_by_id i d =
     executed ''DELETE FROM work_projects WHERE id = ?''
       (d\<lparr>table := filter (\<lambda>r. id_col r \<noteq> i) (table d)\<rparr>)"

section \<open>backend/routes.py\<close>

text \<open>
  What a handler raises. The \<open>detail\<close> of an \<open>HTTPException\<close> is kept by its kind:
  \<open>Invalid_sort_by\<close> is "Invalid sort_by field. Must be one of: ...",
  \<open>Invalid_order\<close> is "Order must be 'asc' or 'desc'", \<open>Not_found i\<close> is
  "Project i not found", \<open>Failed_to_retrieve\<close> is "Failed to retrieve created
  project", \<open>Database_error e\<close> is "Database error: " followed by the text of
  \<open>e\<close>. \<open>RequestValidationError\<close> is FastAPI's answer, HTTP 422, to a body that
  the handler's model refuses, with the fields at fault; the handler does not run.
\<close>

datatype detail =
  Invalid_sort_by | Invalid_order | Not_found int | Failed_to_retrieve | Database_error exn

datatype failure = HTTPException nat detail | RequestValidationError "string list"

fun status_code :: "failure \<Rightarrow> nat" where
  "status_code (HTTPException c _) = c"
| "status_code (RequestValidationError _) = 422"

text \<open>The HTTP status of a result, given the route's status of success.\<close>

fun status :: "nat \<Rightarrow> failure + 'a \<Rightarrow> nat" where
  "status success (Inl f) = status_code f"
| "status success (Inr _) = success"

text \<open>
  \<open>return ProjectResponse(**row)\<close> inside \<open>try\<close>: a row that the response model
  refuses raises there, and the catch-all turns that into HTTP 500.
\<close>

definition respond :: "ProjectResponse \<Rightarrow> db \<Rightarrow> (failure + ProjectResponse) \<times> db" where
  "respond row d =
     (case ProjectResponse_of row of
        Inl e \<Rightarrow> (Inl (HTTPException 500 (Database_error e)), d)
      | Inr r \<Rightarrow> (Inr r, d))"

subsection \<open>POST /api/projects\<close>

definition create_project :: "timestamp \<Rightarrow> ProjectBase \<Rightarrow> db \<Rightarrow> (failure + ProjectResponse) \<times> db" where
  "create_project now project d =
     (let (new, d1) = insert_project now project d;
          (created_project, d2) = select_by_id new d1
      in case created_project of
           None \<Rightarrow> (Inl (HTTPException 500 Failed_to_retrieve), d2)
         | Some row \<Rightarrow> respond row d2)"

definition post_projects :: "timestamp \<Rightarrow> ProjectPayload \<Rightarrow> db \<Rightarrow> (failure + ProjectResponse) \<times> db" where
  "post_projects now body d =
     (case ProjectCreate body of
        Inl errors \<Rightarrow> (Inl (RequestValidationError errors), d)
      | Inr project \<Rightarrow> create_project now project d)"

subsection \<open>GET /api/projects\<close>

record list_params =
  industry_q :: "string option"
  client_q :: "string option"
  tools_q :: "string option"
  start_after_q :: "date option"
  end_before_q :: "date option"
  sort_by_q :: "string option"
  order_q :: "string option"

definition valid_sort_fields :: "string list" where
  "valid_sort_fields =
     [''id'', ''project_name'', ''industry'', ''start_date'', ''end_date'',
      ''client_organization'', ''created_at'', ''updated_at'']"

text \<open>One \<open>AND\<close> of the WHERE clause with its bound parameter.\<close>

datatype cond =
  Industry_eq string | Client_eq string | Tools_like string | Start_ge date | End_le date

fun cond_sql :: "cond \<Rightarrow> string" where
  "cond_sql (Industry_eq v) = '' AND industry = ?''"
| "cond_sql (Client_eq v) = '' AND client_organization = ?''"
| "cond_sql (Tools_like v) = '' AND tools_used LIKE ?''"
| "cond_sql (Start_ge v) = '' AND start_date >= ?''"
| "cond_sql (End_le v) = '' AND end_date <= ?''"

text \<open>What SQLite makes of it on a row: a comparison with NULL is not true.\<close>

fun cond_holds :: "cond \<Rightarrow> ProjectResponse \<Rightarrow> bool" where
  "cond_holds (Industry_eq v) r = (industry r = Some v)"
| "cond_holds (Client_eq v) r = (client_organization r = Some v)"
| "cond_holds (Tools_like v) r = (case tools_used r of None \<Rightarrow> False | Some s \<Rightarrow> like v s)"
| "cond_holds (Start_ge v) r = (case start_date r of None \<Rightarrow> False | Some x \<Rightarrow> v \<le> x)"
| "cond_holds (End_le v) r = (case end_date r of None \<Rightarrow> False | Some x \<Rightarrow> x \<le> v)"

text \<open>
  \<open>ORDER BY column\<close>, ascending: NULL first (\<open>None\<close> is least in \<open>Option_ord\<close>),
  then by value. SQL leaves the order of rows with equal keys open; the model keeps
  them in table order, and reverses the whole list for DESC. A column that the table
  does not have, or a direction that SQL does not know, is sqlite3.OperationalError.
\<close>

definition sort_column :: "string \<Rightarrow> ProjectResponse list \<Rightarrow> ProjectResponse list option" where
  "sort_column col rows =
     (if col = ''id'' then Some (sort_key id_col rows)
      else if col = ''project_name'' then Some (sort_key project_name rows)
      else if col = ''industry'' then Some (sort_key industry rows)
      else if col = ''start_date'' then Some (sort_key start_date rows)
      else if col = ''end_date'' then Some (sort_key end_date rows)
      else if col = ''client_organization'' then Some (sort_key client_organization rows)
      else if col = ''created_at'' then Some (sort_key created_at rows)
      else if col = ''updated_at'' then Some (sort_key updated_at rows)
      else None)"

definition order_by :: "string \<Rightarrow> string \<Rightarrow> ProjectResponse list \<Rightarrow> exn + ProjectResponse list" where
  "order_by col dir rows =
     (case sort_column col rows of
        None \<Rightarrow> Inl OperationalError
      | Some sorted_rows \<Rightarrow>
          if dir = ''ASC'' then Inr sorted_rows
          else if dir = ''DESC'' then Inr (rev sorted_rows)
          else Inl OperationalError)"

text \<open>\<open>fetch_all(query, params)\<close> for the statement that \<open>list_projects\<close> builds.\<close>

definition select_projects ::
  "string \<Rightarrow> cond list \<Rightarrow> string \<Rightarrow> string \<Rightarrow> db \<Rightarrow> (exn + ProjectResponse list) \<times> db" where
  "select_projects query conds col dir d =
     (order_by col dir (filter (\<lambda>r. list_all (\<lambda>c. cond_holds c r) conds) (table d)),
      executed query d)"

text \<open>\<open>[ProjectResponse(**project) for project in projects]\<close>: the first refusal raises.\<close>

fun responses :: "ProjectResponse list \<Rightarrow> exn + ProjectResponse list" where
  "responses [] = Inr []"
| "responses (row # rows) =
     (case ProjectResponse_of row of
        Inl e \<Rightarrow> Inl e
      | Inr r \<Rightarrow> (case responses rows of Inl e \<Rightarrow> Inl e | Inr rs \<Rightarrow> Inr (r # rs)))"

text \<open>\<open>if v:\<close> on an optional string: neither \<open>None\<close> nor empty.\<close>

fun if_str :: "string option \<Rightarrow> (string \<Rightarrow> cond) \<Rightarrow> cond list" where
  "if_str None f = []"
| "if_str (Some v) f = (if v = [] then [] else [f v])"

text \<open>\<open>if v:\<close> on an optional date: a date is always true.\<close>

fun if_date :: "date option \<Rightarrow> (date \<Rightarrow> cond) \<Rightarrow> cond list" where
  "if_date None f = []"
| "if_date (Some v) f = [f v]"

text \<open>
  The parameters \<open>sort_by\<close> and \<open>order\<close> have the defaults of the signature,
  \<open>Query("created_at")\<close> and \<open>Query("desc")\<close>, when the request leaves them out.
\<close>

definition list_projects :: "list_params \<Rightarrow> db \<Rightarrow> (failure + ProjectResponse list) \<times> db" where
  "list_projects q d =
     (let sort_by = (case sort_by_q q of None \<Rightarrow> ''created_at'' | Some s \<Rightarrow> s);
          order = (case order_q q of None \<Rightarrow> ''desc'' | Some s \<Rightarrow> s)
      in if sort_by \<notin> set valid_sort_fields then (Inl (HTTPException 400 Invalid_sort_by), d)
         else if lower order \<notin> set [''asc'', ''desc''] then (Inl (HTTPException 400 Invalid_order), d)
         else
           let conds =
                 if_str (industry_q q) Industry_eq @
                 if_str (client_q q) Client_eq @
                 if_str (tools_q q) (\<lambda>tools. Tools_like (''%'' @ tools @ ''%'')) @
                 if_date (start_after_q q) Start_ge @
                 if_date (end_before_q q) End_le;
               query = ''SELECT * FROM work_projects WHERE 1=1'' @ concat (map cond_sql conds) @
                       '' ORDER BY '' @ sort_by @ '' '' @ upper order;
               (projects, d1) = select_projects query conds sort_by (upper order) d
           in case projects of
                Inl e \<Rightarrow> (Inl (HTTPException 500 (Database_error e)), d1)
              | Inr rows \<Rightarrow>
                  (case responses rows of
                     Inl e \<Rightarrow> (Inl (HTTPException 500 (Database_error e)), d1)
                   | Inr rs \<Rightarrow> (Inr rs, d1)))"

subsection \<open>GET /api/projects/{project_id}\<close>

definition get_project :: "int \<Rightarrow> db \<Rightarrow> (failure + ProjectResponse) \<times> db" where
  "get_project project_id d =
     (let (project, d1) = select_by_id project_id d
      in case project of
           None \<Rightarrow> (Inl (HTTPException 404 (Not_found project_id)), d1)
         | Some row \<Rightarrow> respond row d1)"

subsection \<open>PUT /api/projects/{project_id}\<close>

text \<open>The keys of \<open>project.model_dump(exclude_unset=True)\<close>, in the order of the class.\<close>

fun key_if_set :: "string \<Rightarrow> 'a field \<Rightarrow> string list" where
  "key_if_set k Unset = []"
| "key_if_set k _ = [k]"

definition update_data :: "ProjectPayload \<Rightarrow> string list" where
  "update_data p =
     key_if_set ''project_name'' (project_name_in p) @
     key_if_set ''description'' (description_in p) @
     key_if_set ''industry'' (industry_in p) @
     key_if_set ''start_date'' (start_date_in p) @
     key_if_set ''end_date'' (end_date_in p) @
     key_if_set ''tools_used'' (tools_used_in p) @
     key_if_set ''role'' (role_in p) @
     key_if_set ''client_organization'' (client_organization_in p) @
     key_if_set ''client_description'' (client_description_in p)"

definition update_project :: "timestamp \<Rightarrow> int \<Rightarrow> ProjectPayload \<Rightarrow> db \<Rightarrow> (failure + ProjectResponse) \<times> db" where
  "update_project now project_id project d =
     (let (existing, d1) = select_by_id project_id d
      in case existing of
           None \<Rightarrow> (Inl (HTTPException 404 (Not_found project_id)), d1)
         | Some row \<Rightarrow>
             (let updates = map (\<lambda>field. field @ '' = ?'') (update_data project)
              in if updates = [] then respond row d1
                else
                  let query = ''UPDATE work_projects SET '' @ join '', '' updates @ '' WHERE id = ?'';
                      (done, d2) = update_by_id now query project project_id d1
                  in (case done of
                        Inl e \<Rightarrow> (Inl (HTTPException 500 (Database_error e)), d2)
                      | Inr _ \<Rightarrow>
                          (let (updated_project, d3) = select_by_id project_id d2
                           in (case updated_project of
                                 None \<Rightarrow> (Inl (HTTPException 500 (Database_error TypeError)), d3)
                               | Some row' \<Rightarrow> respond row' d3)))))"

text \<open>The route: FastAPI validates the body as a \<open>ProjectUpdate\<close>, then calls the handler.\<close>

definition put_project :: "timestamp \<Rightarrow> int \<Rightarrow> ProjectPayload \<Rightarrow> db \<Rightarrow> (failure + ProjectResponse) \<times> db" where
  "put_project now project_id body d =
     (case ProjectUpdate body of
        Inl errors \<Rightarrow> (Inl (RequestValidationError errors), d)
      | Inr project \<Rightarrow> update_project now project_id project d)"

subsection \<open>DELETE /api/projects/{project_id}\<close>

text \<open>The success value stands for the message "Project i deleted successfully".\<close>

definition delete_project :: "int \<Rightarrow> db \<Rightarrow> (failure + int) \<times> db" where
  "delete_project project_id d =
     (let (existing, d1) = select_by_id project_id d
      in case existing of
           None \<Rightarrow> (Inl (HTTPException 404 (Not_found project_id)), d1)
         | Some row \<Rightarrow> (Inr project_id, delete_by_id project_id d1))"

subsection \<open>GET /api/projects/filters/options\<close>

record FilterOptions =
  industries :: "string list"
  clients :: "string list"
  tools :: "string list"

text \<open>
  \<open>SELECT DISTINCT column FROM work_projects WHERE column IS NOT NULL AND column != ''\<close>:
  the values in the order of their first row.
\<close>

definition select_distinct :: "(ProjectResponse \<Rightarrow> string option) \<Rightarrow> ProjectResponse list \<Rightarrow> string list" where
  "select_distinct column rows = remdups (filter (\<lambda>s. s \<noteq> []) (List.map_filter column rows))"

text \<open>The body of the loop over \<open>tools_data\<close> that fills \<open>tools_set\<close>.\<close>

definition add_tools :: "string \<Rightarrow> string set \<Rightarrow> string set" where
  "add_tools row_tools tools_set =
     (if row_tools \<noteq> [] then
        fold (\<lambda>tool acc. let tool' = strip tool in if tool' \<noteq> [] then insert tool' acc else acc)
             (split CHR '','' row_tools) tools_set
      else tools_set)"

text \<open>
  The text of the three statements, with the white space of the source's multi-line
  literals reduced to single blanks; \<open>[CHR 0x27, CHR 0x27]\<close> is SQL's empty string.
\<close>

definition get_filter_options :: "db \<Rightarrow> (failure + FilterOptions) \<times> db" where
  "get_filter_options d =
     (let industries_query =
            ''SELECT DISTINCT industry FROM work_projects WHERE industry IS NOT NULL AND industry != '' @
            [CHR 0x27, CHR 0x27] @ '' ORDER BY industry'';
          d1 = executed industries_query d;
          industries = sort (select_distinct industry (table d1));
          clients_query =
            ''SELECT DISTINCT client_organization FROM work_projects WHERE client_organization IS NOT NULL AND client_organization != '' @
            [CHR 0x27, CHR 0x27] @ '' ORDER BY client_organization'';
          d2 = executed clients_query d1;
          clients = sort (select_distinct client_organization (table d2));
          tools_query =
            ''SELECT DISTINCT tools_used FROM work_projects WHERE tools_used IS NOT NULL AND tools_used != '' @
            [CHR 0x27, CHR 0x27];
          d3 = executed tools_query d2;
          tools_data = select_distinct tools_used (table d3);
          tools_set = fold add_tools tools_data {};
          tools = sorted_list_of_set tools_set
      in (Inr \<lparr>industries = industries, clients = clients, tools = tools\<rparr>, d3))"

section \<open>The spec's words, and example requests and states\<close>

text \<open>
  Following the spec's words, "contains X as a substring": \<open>contains s x\<close> holds when
  \<open>x\<close> occurs in \<open>s\<close> as a block of adjacent characters, case and all.
\<close>

fun starts_with :: "string \<Rightarrow> string \<Rightarrow> bool" where
  "starts_with s [] = True"
| "starts_with [] (x # xs) = False"
| "starts_with (c # cs) (x # xs) = (c = x \<and> starts_with cs xs)"

fun contains :: "string \<Rightarrow> string \<Rightarrow> bool" where
  "contains [] x = (x = [])"
| "contains (c # cs) x = (starts_with (c # cs) x \<or> contains cs x)"

definition empty_db :: db where
  "empty_db = \<lparr>table = [], sql_log = []\<rparr>"

definition no_fields :: ProjectPayload where
  "no_fields =
     \<lparr>project_name_in = Unset, description_in = Unset, industry_in = Unset,
      start_date_in = Unset, end_date_in = Unset, tools_used_in = Unset, role_in = Unset,
      client_organization_in = Unset, client_description_in = Unset\<rparr>"

definition no_params :: list_params where
  "no_params =
     \<lparr>industry_q = None, client_q = None, tools_q = None, start_after_q = None,
      end_before_q = None, sort_by_q = None, order_q = None\<rparr>"

text \<open>A project that starts on 2024-06-30, and the table after POST of it at clock 100.\<close>

definition started_project :: ProjectPayload where
  "started_project =
     no_fields\<lparr>project_name_in := Val ''P'', description_in := Val ''D'',
               start_date_in := Val (2024, 6, 30)\<rparr>"

definition one_project :: db where
  "one_project = snd (post_projects 100 started_project empty_db)"

text \<open>PUT of an end date before that start, at clock 200, and the table after it.\<close>

definition earlier_end :: ProjectPayload where
  "earlier_end = no_fields\<lparr>end_date_in := Val (2024, 1, 1)\<rparr>"

definition misdated :: db where
  "misdated = snd (put_project 200 1 earlier_end one_project)"

definition to_finance :: ProjectPayload where
  "to_finance = no_fields\<lparr>industry_in := Val ''Finance''\<rparr>"

text \<open>The body of the test \<open>test_create_project_invalid_dates\<close>, without its name.\<close>

definition reversed_dates :: ProjectPayload where
  "reversed_dates =
     no_fields\<lparr>description_in := Val ''End before start'',
               start_date_in := Val (2024, 6, 30), end_date_in := Val (2024, 1, 1)\<rparr>"

text \<open>The two requests of the test \<open>test_list_projects_invalid_sort\<close>.\<close>

definition injected_sort :: list_params where
  "injected_sort = no_params\<lparr>sort_by_q := Some ''id;DROP TABLE work_projects''\<rparr>"

definition invalid_order :: list_params where
  "invalid_order = no_params\<lparr>sort_by_q := Some ''project_name'', order_q := Some ''invalid''\<rparr>"

text \<open>The two rows of the spec's example for the filter options, and a tools filter.\<close>

definition with_tools :: "string \<Rightarrow> ProjectPayload" where
  "with_tools ts = no_fields\<lparr>project_name_in := Val ''P'', description_in := Val ''D'',
                              tools_used_in := Val ts\<rparr>"

definition two_projects :: db where
  "two_projects =
     snd (post_projects 101 (with_tools ''Python, React'')
            (snd (post_projects 100 (with_tools ''Python, Django'') empty_db)))"


section \<open>Facts about the database layer\<close>

lemma table_executed [simp]: "table (executed query d) = table d"
  by (simp add: executed_def)

lemma fst_select_by_id [simp]: "fst (select_by_id i d) = find (\<lambda>r. id_col r = i) (table d)"
  by (simp add: select_by_id_def)

lemma table_select_by_id [simp]: "table (snd (select_by_id i d)) = table d"
  by (simp add: select_by_id_def)



lemma find_map_update:
  assumes "\<And>r. P (f r) = P r"
  shows "find P (map (\<lambda>r. if P r then f r else r) rows) = map_option f (find P rows)"
  using assms by (induction rows) auto

lemma id_col_set_columns [simp]: "id_col (set_columns p r) = id_col r"
  by (simp add: set_columns_def)

lemma find_after_update:
  "find (\<lambda>r. id_col r = i)
     (map (\<lambda>r. if id_col r = i then stamp_updated_at now (set_columns p r) else r) rows) =
   map_option (\<lambda>r. stamp_updated_at now (set_columns p r)) (find (\<lambda>r. id_col r = i) rows)"
  by (rule find_map_update [where P = "\<lambda>r. id_col r = i"]) (simp add: stamp_updated_at_def)

lemma others_after_update:
  "filter (\<lambda>r. id_col r \<noteq> i)
     (map (\<lambda>r. if id_col r = i then stamp_updated_at now (set_columns p r) else r) rows) =
   filter (\<lambda>r. id_col r \<noteq> i) rows"
  by (induction rows) (auto simp add: stamp_updated_at_def)

lemma respond_status:
  "status 200 (fst (respond row d)) = (if response_ok row then 200 else 500)"
  by (simp add: respond_def ProjectResponse_of_def)

lemma snd_respond [simp]: "snd (respond row d) = d"
  by (simp add: respond_def ProjectResponse_of_def)

section \<open>GET /api/projects: sorting parameters and empty filters\<close>

text \<open>
  Claim C1. A \<open>sort_by\<close> outside the allow-list, or an \<open>order\<close> that is neither
  \<open>asc\<close> nor \<open>desc\<close> once lower-cased, is answered with HTTP 400 and the state is
  returned as it came, the log of SQL statements included: no statement was built or
  run. A request without \<open>sort_by\<close> is the request with \<open>sort_by=created_at\<close>, and
  one without \<open>order\<close> is the request with \<open>order=desc\<close>.
\<close>

theorem list_projects_rejects_before_sql:
  "(\<forall>s. sort_by_q q = Some s \<and> s \<notin> set valid_sort_fields \<longrightarrow>
        status 200 (fst (list_projects q d)) = 400 \<and> snd (list_projects q d) = d) \<and>
   (\<forall>ord. order_q q = Some ord \<and> lower ord \<notin> set [''asc'', ''desc''] \<longrightarrow>
        status 200 (fst (list_projects q d)) = 400 \<and> snd (list_projects q d) = d) \<and>
   list_projects (q\<lparr>sort_by_q := None\<rparr>) d = list_projects (q\<lparr>sort_by_q := Some ''created_at''\<rparr>) d \<and>
   list_projects (q\<lparr>order_q := None\<rparr>) d = list_projects (q\<lparr>order_q := Some ''desc''\<rparr>) d"
  by (simp add: list_projects_def Let_def)

theorem list_projects_rejects_before_sql_witness:
  "status 200 (fst (list_projects injected_sort one_project)) = 400 \<and>
   snd (list_projects injected_sort one_project) = one_project \<and>
   status 200 (fst (list_projects invalid_order one_project)) = 400 \<and>
   snd (list_projects invalid_order one_project) = one_project"
proof -
  have bad_sort: "sort_by_q injected_sort = Some ''id;DROP TABLE work_projects'' \<and>
      ''id;DROP TABLE work_projects'' \<notin> set valid_sort_fields"
    by (simp add: injected_sort_def no_params_def valid_sort_fields_def)
  have bad_order: "order_q invalid_order = Some ''invalid'' \<and>
      lower ''invalid'' \<notin> set [''asc'', ''desc'']"
    by (simp add: invalid_order_def no_params_def lower_def ascii_lower_def)
  show ?thesis
    using list_projects_rejects_before_sql [of injected_sort one_project]
      list_projects_rejects_before_sql [of invalid_order one_project]
      bad_sort bad_order
    by blast
qed

text \<open>
  Claim C10. A filter parameter given as the empty string (\<open>industry=\<close>, \<open>client=\<close>
  or \<open>tools=\<close>) is treated as the absent parameter: the handler returns the same answer
  and runs the same statement in both cases.
\<close>

theorem list_projects_empty_filter_is_absent:
  "list_projects (q\<lparr>industry_q := Some []\<rparr>) d = list_projects (q\<lparr>industry_q := None\<rparr>) d \<and>
   list_projects (q\<lparr>client_q := Some []\<rparr>) d = list_projects (q\<lparr>client_q := None\<rparr>) d \<and>
   list_projects (q\<lparr>tools_q := Some []\<rparr>) d = list_projects (q\<lparr>tools_q := None\<rparr>) d"
  by (simp add: list_projects_def Let_def)

section \<open>DELETE /api/projects/{project_id}\<close>



section \<open>POST /api/projects with reversed dates\<close>

text \<open>
  Claim C6. A create body whose two dates are present with \<open>end_date\<close> before
  \<open>start_date\<close> is answered with HTTP 422, the failure names the field \<open>end_date\<close>,
  whatever the other fields hold, and the state is returned as it came: no row is
  inserted and no statement is run.
\<close>

theorem post_projects_reversed_dates_422:
  assumes "start_date_in body = Val s" and "end_date_in body = Val e" and "e < s"
  shows "\<exists>errors. fst (post_projects now body d) = Inl (RequestValidationError errors) \<and>
           ''end_date'' \<in> set errors \<and>
           status 201 (fst (post_projects now body d)) = 422 \<and>
           snd (post_projects now body d) = d"
proof -
  have "\<not> end_date_ok body"
    using assms by (simp add: end_date_ok_def validate_end_date_def)
  then have mem: "''end_date'' \<in> set (ProjectCreate_errors body)"
    by (simp add: ProjectCreate_errors_def)
  then have "ProjectCreate_errors body \<noteq> []"
    by auto
  then have "ProjectCreate body = Inl (ProjectCreate_errors body)"
    by (simp add: ProjectCreate_def)
  then show ?thesis
    using mem by (simp add: post_projects_def)
qed

theorem post_projects_reversed_dates_422_witness:
  "\<exists>errors. fst (post_projects 100 reversed_dates one_project) = Inl (RequestValidationError errors) \<and>
     ''end_date'' \<in> set errors \<and>
     status 201 (fst (post_projects 100 reversed_dates one_project)) = 422 \<and>
     snd (post_projects 100 reversed_dates one_project) = one_project"
proof -
  have "start_date_in reversed_dates = Val (2024, 6, 30)"
    and "end_date_in reversed_dates = Val (2024, 1, 1)"
    and "((2024, 1, 1) :: date) < (2024, 6, 30)"
    by (simp_all add: reversed_dates_def no_fields_def)
  then show ?thesis
    by (rule post_projects_reversed_dates_422)
qed

section \<open>PUT /api/projects/{project_id}\<close>

text \<open>
  Claim C3. For a stored row with a start date, a PUT body that supplies only an
  \<open>end_date\<close> before that start date passes the validation of \<open>ProjectUpdate\<close> (the
  check compares dates of the same body only), and the row is stored with
  \<open>end_date\<close> before \<open>start_date\<close>. The answer, though, is HTTP 500 and not 200:
  \<open>ProjectResponse\<close> inherits the validator, refuses the row just stored, and the
  catch-all of \<open>update_project\<close> reports that as a database error.
\<close>

theorem put_end_date_alone_stored_but_500:
  assumes "find (\<lambda>r. id_col r = i) (table d) = Some row"
    and "start_date row = Some s" and "e < s"
  shows "ProjectUpdate (no_fields\<lparr>end_date_in := Val e\<rparr>) = Inr (no_fields\<lparr>end_date_in := Val e\<rparr>) \<and>
         status 200 (fst (put_project now i (no_fields\<lparr>end_date_in := Val e\<rparr>) d)) = 500 \<and>
         (\<exists>row'. find (\<lambda>r. id_col r = i)
                   (table (snd (put_project now i (no_fields\<lparr>end_date_in := Val e\<rparr>) d))) = Some row' \<and>
                 start_date row' = Some s \<and> end_date row' = Some e)"
proof -
  let ?body = "no_fields\<lparr>end_date_in := Val e\<rparr>"
  let ?row' = "stamp_updated_at now (set_columns ?body row)"
  have valid: "ProjectUpdate ?body = Inr ?body"
    by (simp add: ProjectUpdate_def ProjectUpdate_errors_def no_fields_def end_date_ok_def
        validate_end_date_def)
  have keys: "update_data ?body = [''end_date'']"
    by (simp add: update_data_def no_fields_def)
  have dates: "start_date ?row' = Some s" "end_date ?row' = Some e"
    using assms by (simp_all add: set_columns_def stamp_updated_at_def no_fields_def)
  then have bad: "\<not> response_ok ?row'"
    using assms by (simp add: response_ok_def validate_end_date_def)
  have nn: "project_name_in ?body \<noteq> Null" "description_in ?body \<noteq> Null"
    by (simp_all add: no_fields_def)
  have run: "put_project now i ?body d =
      respond ?row' (snd (select_by_id i (snd (update_by_id now
        ''UPDATE work_projects SET end_date = ? WHERE id = ?'' ?body i (snd (select_by_id i d))))))"
    using assms(1) valid keys nn
    by (simp add: put_project_def update_project_def split_def Let_def update_by_id_def not_null_violated_def
        find_after_update)
  have stored: "find (\<lambda>r. id_col r = i) (table (snd (put_project now i ?body d))) = Some ?row'"
    using assms(1) nn by (simp add: run update_by_id_def not_null_violated_def find_after_update)
  show ?thesis
    using valid bad dates stored by (simp add: run respond_status)
qed

theorem put_end_date_alone_stored_but_500_witness:
  "ProjectUpdate (no_fields\<lparr>end_date_in := Val (2024, 1, 1)\<rparr>) =
     Inr (no_fields\<lparr>end_date_in := Val (2024, 1, 1)\<rparr>) \<and>
   status 200 (fst (put_project 200 1 (no_fields\<lparr>end_date_in := Val (2024, 1, 1)\<rparr>) one_project)) = 500 \<and>
   (\<exists>row'. find (\<lambda>r. id_col r = 1)
             (table (snd (put_project 200 1 (no_fields\<lparr>end_date_in := Val (2024, 1, 1)\<rparr>) one_project))) = Some row' \<and>
           start_date row' = Some (2024, 6, 30) \<and> end_date row' = Some (2024, 1, 1))"
proof -
  have "find (\<lambda>r. id_col r = 1) (table one_project) = Some (hd (table one_project))"
    by code_simp
  moreover have "start_date (hd (table one_project)) = Some (2024, 6, 30)"
    by code_simp
  moreover have "((2024, 1, 1) :: date) < (2024, 6, 30)"
    by simp
  ultimately show ?thesis
    by (rule put_end_date_alone_stored_but_500)
qed

text \<open>
  Claim C5. Not every error leaves the stored state alone. From the empty table: POST of
  a project that starts on 2024-06-30, then PUT of \<open>end_date\<close> 2024-01-01 alone. The
  PUT is answered with HTTP 500, and the table is not the one before the PUT: the end
  date and \<open>updated_at\<close> of the row have been written.
\<close>

theorem put_changes_row_then_answers_500:
  "status 201 (fst (post_projects 100 started_project empty_db)) = 201 \<and>
   status 200 (fst (put_project 200 1 earlier_end one_project)) = 500 \<and>
   table (snd (put_project 200 1 earlier_end one_project)) \<noteq> table one_project \<and>
   map end_date (table one_project) = [None] \<and>
   map end_date (table (snd (put_project 200 1 earlier_end one_project))) = [Some (2024, 1, 1)]"
  by code_simp

text \<open>
  Claim C8. A PUT without fields writes nothing, but it is not always answered with
  HTTP 200. On the table that the POST and the PUT above leave (\<open>misdated\<close>), the
  row with id 1 exists, and the PUT of the empty body on it is answered with HTTP 500:
  the handler builds the response from the existing row, and the response model
  refuses that row.
\<close>

theorem put_no_fields_answers_500_on_misdated_row:
  "map id_col (table misdated) = [1] \<and>
   update_data no_fields = [] \<and>
   status 200 (fst (put_project 300 1 no_fields misdated)) = 500 \<and>
   table (snd (put_project 300 1 no_fields misdated)) = table misdated"
  by code_simp

text \<open>
  What does hold of a PUT without fields, on every state: the table stays as it is, and
  the answer is HTTP 200 with the existing row exactly when the response model accepts
  that row.
\<close>

lemma put_no_fields_writes_nothing:
  assumes "find (\<lambda>r. id_col r = i) (table d) = Some row"
  shows "table (snd (put_project now i no_fields d)) = table d \<and>
         fst (put_project now i no_fields d) =
           (if response_ok row then Inr row else Inl (HTTPException 500 (Database_error ValidationError)))"
proof -
  have "ProjectUpdate no_fields = Inr no_fields"
    by (simp add: ProjectUpdate_def ProjectUpdate_errors_def no_fields_def end_date_ok_def)
  moreover have "update_data no_fields = []"
    by (simp add: update_data_def no_fields_def)
  ultimately show ?thesis
    using assms
    by (simp add: put_project_def update_project_def split_def Let_def respond_def
        ProjectResponse_of_def)
qed

lemma put_project_ok_row:
  assumes found: "find (\<lambda>r. id_col r = i) (table d) = Some row"
    and supplied: "update_data body \<noteq> []"
    and ok: "status 200 (fst (put_project now i body d)) = 200"
  shows "fst (put_project now i body d) = Inr (stamp_updated_at now (set_columns body row)) \<and>
         table (snd (put_project now i body d)) =
           map (\<lambda>r. if id_col r = i then stamp_updated_at now (set_columns body r) else r) (table d)"
proof -
  let ?row' = "stamp_updated_at now (set_columns body row)"
  have valid: "ProjectUpdate body = Inr body"
  proof (cases "ProjectUpdate_errors body = []")
    case True
    then show ?thesis by (simp add: ProjectUpdate_def)
  next
    case False
    then have "status 200 (fst (put_project now i body d)) = 422"
      by (simp add: put_project_def ProjectUpdate_def)
    with ok show ?thesis by simp
  qed
  have keys: "map (\<lambda>field. field @ '' = ?'') (update_data body) \<noteq> []"
    using supplied by simp
  have nn: "\<not> not_null_violated body"
  proof
    assume "not_null_violated body"
    then have "status 200 (fst (put_project now i body d)) = 500"
      using found valid keys
      by (simp add: put_project_def update_project_def split_def Let_def update_by_id_def)
    with ok show False by simp
  qed
  have run: "put_project now i body d =
      respond ?row' (snd (select_by_id i (snd (update_by_id now
        (''UPDATE work_projects SET '' @
           join '', '' (map (\<lambda>field. field @ '' = ?'') (update_data body)) @ '' WHERE id = ?'')
        body i (snd (select_by_id i d))))))"
    using found valid keys nn
    by (simp add: put_project_def update_project_def split_def Let_def update_by_id_def
        find_after_update)
  have tab: "table (snd (put_project now i body d)) =
      map (\<lambda>r. if id_col r = i then stamp_updated_at now (set_columns body r) else r) (table d)"
    using nn by (simp add: run update_by_id_def)
  have "response_ok ?row'"
    using ok by (simp add: run respond_status split: if_splits)
  then have "fst (put_project now i body d) = Inr ?row'"
    by (simp add: run respond_def ProjectResponse_of_def)
  then show ?thesis
    using tab by simp
qed

lemma ProjectUpdate_Inr: "ProjectUpdate body = Inr p \<Longrightarrow> p = body"
  by (simp add: ProjectUpdate_def split: if_splits)

text \<open>A PUT either leaves the table as it is or runs its one UPDATE.\<close>

lemma put_project_table_cases:
  "table (snd (put_project now i body d)) = table d \<or>
   table (snd (put_project now i body d)) =
     map (\<lambda>r. if id_col r = i then stamp_updated_at now (set_columns body r) else r) (table d)"
proof (cases "ProjectUpdate body")
  case (Inl errors)
  then show ?thesis by (simp add: put_project_def)
next
  case (Inr p)
  then have "ProjectUpdate body = Inr body"
    using ProjectUpdate_Inr by blast
  then show ?thesis
    by (simp add: put_project_def update_project_def split_def Let_def update_by_id_def
        split: option.splits)
qed

text \<open>
  Claim C4, amended. For every PUT on an id that a row has, whatever its answer: the row
  is still there, every field that the body leaves out holds what it held before,
  \<open>id\<close> and \<open>created_at\<close> are unchanged, and the rows with another id are
  unchanged. When the body supplies at least one field and the answer is HTTP 200, the
  answer is the row as stored, each supplied field holds the supplied value
  (\<open>set_str\<close>, \<open>set_opt\<close>), and \<open>updated_at\<close> is the reading \<open>now\<close> of the clock at
  the update: it has grown exactly when the clock has moved on since the row was last
  stamped.
\<close>

theorem put_project_frame:
  assumes found: "find (\<lambda>r. id_col r = i) (table d) = Some row"
  shows "\<exists>row'. find (\<lambda>r. id_col r = i) (table (snd (put_project now i body d))) = Some row' \<and>
           (project_name_in body = Unset \<longrightarrow> project_name row' = project_name row) \<and>
           (description_in body = Unset \<longrightarrow> description row' = description row) \<and>
           (industry_in body = Unset \<longrightarrow> industry row' = industry row) \<and>
           (start_date_in body = Unset \<longrightarrow> start_date row' = start_date row) \<and>
           (end_date_in body = Unset \<longrightarrow> end_date row' = end_date row) \<and>
           (tools_used_in body = Unset \<longrightarrow> tools_used row' = tools_used row) \<and>
           (role_in body = Unset \<longrightarrow> role row' = role row) \<and>
           (client_organization_in body = Unset \<longrightarrow>
              client_organization row' = client_organization row) \<and>
           (client_description_in body = Unset \<longrightarrow>
              client_description row' = client_description row) \<and>
           id_col row' = id_col row \<and> created_at row' = created_at row \<and>
           filter (\<lambda>r. id_col r \<noteq> i) (table (snd (put_project now i body d))) =
             filter (\<lambda>r. id_col r \<noteq> i) (table d) \<and>
           (update_data body \<noteq> [] \<and> status 200 (fst (put_project now i body d)) = 200 \<longrightarrow>
              fst (put_project now i body d) = Inr row' \<and>
              project_name row' = set_str (project_name_in body) (project_name row) \<and>
              description row' = set_str (description_in body) (description row) \<and>
              industry row' = set_opt (industry_in body) (industry row) \<and>
              start_date row' = set_opt (start_date_in body) (start_date row) \<and>
              end_date row' = set_opt (end_date_in body) (end_date row) \<and>
              tools_used row' = set_opt (tools_used_in body) (tools_used row) \<and>
              role row' = set_opt (role_in body) (role row) \<and>
              client_organization row' =
                set_opt (client_organization_in body) (client_organization row) \<and>
              client_description row' =
                set_opt (client_description_in body) (client_description row) \<and>
              updated_at row' = now \<and>
              (updated_at row < updated_at row') = (updated_at row < now))"
proof -
  let ?d' = "snd (put_project now i body d)"
  let ?new = "stamp_updated_at now (set_columns body row)"
  have frame: "project_name_in body = Unset \<longrightarrow> project_name ?new = project_name row"
    "description_in body = Unset \<longrightarrow> description ?new = description row"
    "industry_in body = Unset \<longrightarrow> industry ?new = industry row"
    "start_date_in body = Unset \<longrightarrow> start_date ?new = start_date row"
    "end_date_in body = Unset \<longrightarrow> end_date ?new = end_date row"
    "tools_used_in body = Unset \<longrightarrow> tools_used ?new = tools_used row"
    "role_in body = Unset \<longrightarrow> role ?new = role row"
    "client_organization_in body = Unset \<longrightarrow> client_organization ?new = client_organization row"
    "client_description_in body = Unset \<longrightarrow> client_description ?new = client_description row"
    "id_col ?new = id_col row" "created_at ?new = created_at row" "updated_at ?new = now"
    by (simp_all add: set_columns_def stamp_updated_at_def)
  have fields: "project_name ?new = set_str (project_name_in body) (project_name row)"
    "description ?new = set_str (description_in body) (description row)"
    "industry ?new = set_opt (industry_in body) (industry row)"
    "start_date ?new = set_opt (start_date_in body) (start_date row)"
    "end_date ?new = set_opt (end_date_in body) (end_date row)"
    "tools_used ?new = set_opt (tools_used_in body) (tools_used row)"
    "role ?new = set_opt (role_in body) (role row)"
    "client_organization ?new = set_opt (client_organization_in body) (client_organization row)"
    "client_description ?new = set_opt (client_description_in body) (client_description row)"
    by (simp_all add: set_columns_def stamp_updated_at_def)
  have others: "filter (\<lambda>r. id_col r \<noteq> i) (table ?d') = filter (\<lambda>r. id_col r \<noteq> i) (table d)"
    using put_project_table_cases [of now i body d] by (auto simp add: others_after_update)
  have "find (\<lambda>r. id_col r = i) (table ?d') = Some row \<or>
        find (\<lambda>r. id_col r = i) (table ?d') = Some ?new"
    using put_project_table_cases [of now i body d] found by (auto simp add: find_after_update)
  then show ?thesis
  proof
    assume same: "find (\<lambda>r. id_col r = i) (table ?d') = Some row"
    have answered: "fst (put_project now i body d) = Inr row \<and> ?new = row \<and> updated_at row = now"
      if "update_data body \<noteq> [] \<and> status 200 (fst (put_project now i body d)) = 200"
    proof -
      have answer: "fst (put_project now i body d) = Inr ?new"
        and tab: "table ?d' =
          map (\<lambda>r. if id_col r = i then stamp_updated_at now (set_columns body r) else r) (table d)"
        using put_project_ok_row [OF found, of body now] that by simp_all
      have "find (\<lambda>r. id_col r = i) (table ?d') = Some ?new"
        using found by (simp add: tab find_after_update)
      with same have eq: "?new = row"
        by simp
      then have "updated_at row = now"
        using frame(12) by simp
      then show ?thesis
        using answer eq by simp
    qed
    show ?thesis
      using same others answered fields by (intro exI [of _ row]) (simp, metis)
  next
    assume new: "find (\<lambda>r. id_col r = i) (table ?d') = Some ?new"
    show ?thesis
      using new others frame fields put_project_ok_row [OF found, of body now]
      by (intro exI [of _ ?new]) simp
  qed
qed

theorem put_project_frame_witness:
  "\<exists>row'. fst (put_project 200 1 to_finance one_project) = Inr row' \<and>
     find (\<lambda>r. id_col r = 1) (table (snd (put_project 200 1 to_finance one_project))) = Some row' \<and>
     industry row' = Some ''Finance'' \<and>
     start_date row' = Some (2024, 6, 30) \<and>
     created_at row' = 100 \<and>
     updated_at row' = 200"
proof -
  have found: "find (\<lambda>r. id_col r = 1) (table one_project) = Some (hd (table one_project))"
    by code_simp
  have supplied: "update_data to_finance \<noteq> []"
    by code_simp
  have ok: "status 200 (fst (put_project 200 1 to_finance one_project)) = 200"
    by code_simp
  have body: "industry_in to_finance = Val ''Finance''" "start_date_in to_finance = Unset"
    by (simp_all add: to_finance_def no_fields_def)
  have old: "start_date (hd (table one_project)) = Some (2024, 6, 30)"
    "created_at (hd (table one_project)) = 100"
    by code_simp+
  show ?thesis
    using put_project_frame [OF found, of 200 to_finance] supplied ok body old by auto
qed

text \<open>
  The claim as it stands fails where the clock has not moved: POST at reading 100, then
  PUT of \<open>industry\<close> at the same reading. The PUT is answered with HTTP 200 and the
  industry is stored, but \<open>updated_at\<close> is 100 before and after.
\<close>

theorem put_project_same_clock_counterexample:
  "map id_col (table one_project) = [1] \<and>
   update_data to_finance = [''industry''] \<and>
   status 200 (fst (put_project 100 1 to_finance one_project)) = 200 \<and>
   map industry (table (snd (put_project 100 1 to_finance one_project))) = [Some ''Finance''] \<and>
   map updated_at (table one_project) = [100] \<and>
   map updated_at (table (snd (put_project 100 1 to_finance one_project))) = [100]"
  by code_simp

section \<open>GET /api/projects/filters/options\<close>








text \<open>The spec's example: rows with "Python, Django" and "Python, React".\<close>

lemma get_filter_options_example:
  "map tools_used (table two_projects) = [Some ''Python, Django'', Some ''Python, React''] \<and>
   fst (get_filter_options two_projects) =
     Inr \<lparr>industries = [], clients = [], tools = [''Django'', ''Python'', ''React'']\<rparr>"
  by code_simp

section \<open>GET /api/projects with a tools filter\<close>

lemma starts_with_iff: "starts_with s x \<longleftrightarrow> (\<exists>post. s = x @ post)"
  by (induction s x rule: starts_with.induct) auto

text \<open>\<open>contains\<close> is the substring relation of the spec's words.\<close>

lemma contains_iff: "contains s x \<longleftrightarrow> (\<exists>pre post. s = pre @ x @ post)"
proof (induction s)
  case Nil
  then show ?case by auto
next
  case (Cons c cs)
  show ?case
  proof
    assume "contains (c # cs) x"
    then consider "starts_with (c # cs) x" | "contains cs x"
      by auto
    then show "\<exists>pre post. c # cs = pre @ x @ post"
    proof cases
      case 1
      then obtain post where "c # cs = x @ post"
        by (auto simp add: starts_with_iff)
      then have "c # cs = [] @ x @ post"
        by simp
      then show ?thesis by blast
    next
      case 2
      then obtain pre post where "cs = pre @ x @ post"
        using Cons.IH by auto
      then have "c # cs = (c # pre) @ x @ post"
        by simp
      then show ?thesis by blast
    qed
  next
    assume "\<exists>pre post. c # cs = pre @ x @ post"
    then obtain pre post where eq: "c # cs = pre @ x @ post"
      by blast
    show "contains (c # cs) x"
    proof (cases pre)
      case Nil
      then have "starts_with (c # cs) x"
        using eq by (auto simp add: starts_with_iff)
      then show ?thesis by simp
    next
      case (Cons p ps)
      then have "cs = ps @ x @ post"
        using eq by simp
      then have "contains cs x"
        using Cons.IH by blast
      then show ?thesis by simp
    qed
  qed
qed

lemma like_percent [simp]: "like ''%'' s"
  by (induction s) auto













section \<open>What an error answer leaves behind\<close>

text \<open>
  A body that \<open>ProjectCreate\<close> accepts is always stored and answered with the new
  row: its id is fresh, so the row is found again, and the response model checks what
  the request model has checked.
\<close>

lemma fold_max_ge: "(a::int) \<le> fold max xs a"
  by (induction xs arbitrary: a) (auto intro: order_trans [OF max.cobounded2])

lemma fold_max_upper: "x \<in> set xs \<Longrightarrow> (x::int) \<le> fold max xs a"
proof (induction xs arbitrary: a)
  case Nil
  then show ?case by simp
next
  case (Cons y ys)
  then show ?case
    using fold_max_ge [of "max y a" ys] by auto
qed

lemma new_id_fresh: "r \<in> set rows \<Longrightarrow> id_col r < new_id rows"
  using fold_max_upper [of "id_col r" "map id_col rows" 0] by (simp add: new_id_def)

lemma find_fresh:
  assumes "\<And>r. r \<in> set rows \<Longrightarrow> id_col r \<noteq> i" and "id_col row = i"
  shows "find (\<lambda>r. id_col r = i) (rows @ [row]) = Some row"
  using assms by (induction rows) auto

lemma optional_str_field_value:
  "optional_str 0 hi f \<Longrightarrow> (case field_value f of None \<Rightarrow> True | Some s \<Rightarrow> length s \<le> hi)"
  by (cases f) simp_all

lemma required_str_str_of:
  "required_str lo hi f \<Longrightarrow> required_str lo hi (Val (str_of f))"
  by (cases f) simp_all

lemma end_date_ok_field_value:
  "end_date_ok p \<Longrightarrow> is_ok (validate_end_date (field_value (end_date_in p)) (field_value (start_date_in p)))"
  by (cases "end_date_in p") (auto simp add: end_date_ok_def validate_end_date_def)

lemma create_valid_then_201:
  assumes "ProjectCreate body = Inr project"
  shows "\<exists>row. fst (post_projects now body d) = Inr row \<and>
           id_col row = new_id (table d) \<and>
           table (snd (post_projects now body d)) = table d @ [row]"
proof -
  have none: "ProjectCreate_errors body = []"
    using assms by (simp add: ProjectCreate_def split: if_splits)
  then have checks: "required_str 1 200 (project_name_in body)"
    "required_str 1 2000 (description_in body)"
    "optional_str 0 100 (industry_in body)" "end_date_ok body"
    "optional_str 0 500 (tools_used_in body)" "optional_str 0 100 (role_in body)"
    "optional_str 0 200 (client_organization_in body)"
    "optional_str 0 1000 (client_description_in body)"
    by (simp_all add: ProjectCreate_errors_def split: if_splits)
  let ?row = "\<lparr>project_name = project_name project, description = description project,
      industry = industry project, start_date = start_date project, end_date = end_date project,
      tools_used = tools_used project, role = role project,
      client_organization = client_organization project,
      client_description = client_description project,
      id_col = new_id (table d), created_at = now, updated_at = now\<rparr>"
  have project: "project = \<lparr>project_name = str_of (project_name_in body),
             description = str_of (description_in body),
             industry = field_value (industry_in body),
             start_date = field_value (start_date_in body),
             end_date = field_value (end_date_in body),
             tools_used = field_value (tools_used_in body),
             role = field_value (role_in body),
             client_organization = field_value (client_organization_in body),
             client_description = field_value (client_description_in body)\<rparr>"
    using assms none by (simp add: ProjectCreate_def)
  have ok: "response_ok ?row"
    unfolding response_ok_def project
    using checks(1,2)[THEN required_str_str_of] checks(3,5,6,7,8)[THEN optional_str_field_value]
      end_date_ok_field_value [OF checks(4)]
    by (cases "validate_end_date (field_value (end_date_in body)) (field_value (start_date_in body))") simp_all
  have found: "find (\<lambda>r. id_col r = new_id (table d)) (table d @ [?row]) = Some ?row"
    by (rule find_fresh) (use new_id_fresh in fastforce, simp)
  show ?thesis
    using assms ok found
    by (simp add: post_projects_def create_project_def insert_project_def new_row_def Let_def split_def
        respond_def ProjectResponse_of_def)
qed

text \<open>
  Outside PUT an answer that is not the success of its route leaves the table as it was;
  so does a PUT answered with 404 or 422. A PUT that stores an end date before the
  start date, and is then answered with 500, is the exception.
\<close>

lemma snd_list_projects_table: "table (snd (list_projects q d)) = table d"
  by (simp add: list_projects_def Let_def select_projects_def split: sum.splits)

lemma errors_leave_table_outside_put:
  "(status 201 (fst (post_projects now body d)) \<noteq> 201 \<longrightarrow>
      table (snd (post_projects now body d)) = table d) \<and>
   table (snd (list_projects q d)) = table d \<and>
   table (snd (get_project i d)) = table d \<and>
   (status 200 (fst (delete_project i d)) \<noteq> 200 \<longrightarrow>
      table (snd (delete_project i d)) = table d) \<and>
   table (snd (get_filter_options d)) = table d"
proof -
  have post: "status 201 (fst (post_projects now body d)) \<noteq> 201 \<longrightarrow>
      table (snd (post_projects now body d)) = table d"
  proof (cases "ProjectCreate body")
    case (Inl errors)
    then show ?thesis by (simp add: post_projects_def)
  next
    case (Inr project)
    then show ?thesis
      using create_valid_then_201 [OF Inr, of now d] by auto
  qed
  have get: "table (snd (get_project i d)) = table d"
    by (simp add: get_project_def split_def Let_def split: option.splits)
  have del: "status 200 (fst (delete_project i d)) \<noteq> 200 \<longrightarrow>
      table (snd (delete_project i d)) = table d"
    by (simp add: delete_project_def split_def Let_def split: option.splits)
  have opts: "table (snd (get_filter_options d)) = table d"
    by (simp add: get_filter_options_def Let_def)
  show ?thesis
    using post snd_list_projects_table get del opts by blast
qed

lemma put_404_422_leave_table:
  assumes "status 200 (fst (put_project now i body d)) = 404 \<or>
           status 200 (fst (put_project now i body d)) = 422"
  shows "table (snd (put_project now i body d)) = table d"
proof (cases "ProjectUpdate body")
  case (Inl errors)
  then show ?thesis by (simp add: put_project_def)
next
  case (Inr project)
  show ?thesis
  proof (cases "find (\<lambda>r. id_col r = i) (table d)")
    case None
    then show ?thesis
      using Inr by (simp add: put_project_def update_project_def split_def Let_def)
  next
    case (Some row)
    have "status 200 (fst (put_project now i body d)) = 200 \<or>
          status 200 (fst (put_project now i body d)) = 500"
      using Inr Some
      by (simp add: put_project_def update_project_def split_def Let_def update_by_id_def not_null_violated_def
          respond_status find_after_update)
    with assms show ?thesis by auto
  qed
qed

end
